theory Spec2Isabelle
  imports Complex_Main "HOL-Library.Word" "HOL-Library.List_Lexorder"
begin

section \<open>JavaScript values used by the dashboard\<close>

subsection \<open>Strings\<close>

text \<open>
  A JavaScript string is a sequence of UTF-16 code units. Equality (\<open>===\<close>),
  \<open>includes\<close>, \<open>trim\<close> and the default \<open>sort\<close> order all work on code units, so
  a string is a list of 16-bit words. \<open>ustr\<close> writes a literal whose characters are all
  ASCII; the two literals of the source with a letter beyond ASCII are spelled out.
\<close>

type_synonym jsstring = "16 word list"

definition ustr :: "string \<Rightarrow> jsstring" where
  "ustr s = map of_char s"

definition Istanbul :: jsstring where
  \<comment> \<open>the literal of the source that starts with U+0130 (capital I with dot above), then \<open>stanbul\<close>\<close>
  "Istanbul = 0x130 # ustr ''stanbul''"

definition Turkiye :: jsstring where
  \<comment> \<open>the country name compared with \<open>p.city\<close>: \<open>T\<close>, U+00FC (u with diaeresis), \<open>rkiye\<close>\<close>
  "Turkiye = ustr ''T'' @ [0xFC] @ ustr ''rkiye''"

definition isWhiteSpace :: "16 word \<Rightarrow> bool" where
  \<comment> \<open>WhiteSpace and LineTerminator of ECMAScript: what \<open>trim\<close> and \<open>parseInt\<close> strip\<close>
  "isWhiteSpace c \<longleftrightarrow>
     c \<in> {0x9, 0xA, 0xB, 0xC, 0xD, 0x20, 0xA0, 0x1680, 0x2028, 0x2029, 0x202F, 0x205F,
          0x3000, 0xFEFF}
     \<or> (0x2000 \<le> c \<and> c \<le> 0x200A)"

definition trimStart :: "jsstring \<Rightarrow> jsstring" where
  "trimStart s = dropWhile isWhiteSpace s"

definition trimEnd :: "jsstring \<Rightarrow> jsstring" where
  "trimEnd s = rev (dropWhile isWhiteSpace (rev s))"

definition trim :: "jsstring \<Rightarrow> jsstring" where
  "trim s = trimEnd (trimStart s)"

fun startsWith :: "jsstring \<Rightarrow> jsstring \<Rightarrow> bool" where
  "startsWith s [] = True"
| "startsWith [] (c # cs) = False"
| "startsWith (d # ds) (c # cs) = (d = c \<and> startsWith ds cs)"

fun includes_str :: "jsstring \<Rightarrow> jsstring \<Rightarrow> bool" where
  \<comment> \<open>\<open>s.includes(q)\<close>: \<open>q\<close> occurs in \<open>s\<close> as a contiguous run of code units\<close>
  "includes_str [] q = (q = [])"
| "includes_str (c # cs) q = (startsWith (c # cs) q \<or> includes_str cs q)"

text \<open>
  \<open>toLowerCase\<close> is the engine's Unicode lower-case mapping; its table is not part of
  the repository. Every function below that calls it takes the mapping as its first
  argument \<open>lower\<close>, so the theorems hold for whatever table the engine carries.
  \<open>toLowerCaseLatin\<close> is that mapping on the code units below U+0180 (Basic Latin,
  Latin-1 Supplement, Latin Extended-A, which hold the Turkish letters); it evaluates
  the examples, whose strings all lie in that range. Note that U+0130 becomes the two
  units \<open>i\<close>, U+0307, so the lower-cased \<open>Istanbul\<close> literal is not \<open>'istanbul'\<close>.
\<close>

definition lowerUnit :: "16 word \<Rightarrow> 16 word list" where
  "lowerUnit c =
     (if 0x41 \<le> c \<and> c \<le> 0x5A then [c + 0x20]
      else if 0xC0 \<le> c \<and> c \<le> 0xDE \<and> c \<noteq> 0xD7 then [c + 0x20]
      else if c = 0x130 then [0x69, 0x307]
      else if c = 0x178 then [0xFF]
      else if (0x100 \<le> c \<and> c \<le> 0x12F \<or> 0x132 \<le> c \<and> c \<le> 0x137 \<or> 0x14A \<le> c \<and> c \<le> 0x177)
              \<and> even c then [c + 1]
      else if (0x139 \<le> c \<and> c \<le> 0x148 \<or> 0x179 \<le> c \<and> c \<le> 0x17E) \<and> odd c then [c + 1]
      else [c])"

definition toLowerCaseLatin :: "jsstring \<Rightarrow> jsstring" where
  "toLowerCaseLatin s = concat (map lowerUnit s)"

subsection \<open>Numbers\<close>

text \<open>
  A JavaScript number is modelled as an exact rational or \<open>NaN\<close>. Every number of the
  dashboard is an integer parsed from the data set or built from such integers by
  \<open>max\<close>, \<open>min\<close> and one division for the shade; rounding to a double is left out.
  Infinities are outside the model: the only division has a divisor of at least 1
  (\<open>Math.max(maxValue, 1)\<close>), or \<open>NaN\<close>, and a count of more than 308 digits, which
  the engine parses to \<open>Infinity\<close>, is not considered. Comparisons with \<open>NaN\<close> are false, and
  \<open>Math.max\<close>, \<open>Math.min\<close> and arithmetic return \<open>NaN\<close> when an argument is \<open>NaN\<close>.
\<close>

datatype jsnum = Num rat | NaN

fun js_le :: "jsnum \<Rightarrow> jsnum \<Rightarrow> bool" where
  "js_le (Num a) (Num b) = (a \<le> b)"
| "js_le _ _ = False"

fun js_lt :: "jsnum \<Rightarrow> jsnum \<Rightarrow> bool" where
  "js_lt (Num a) (Num b) = (a < b)"
| "js_lt _ _ = False"

definition js_ge :: "jsnum \<Rightarrow> jsnum \<Rightarrow> bool" where
  "js_ge a b = js_le b a"

definition js_gt :: "jsnum \<Rightarrow> jsnum \<Rightarrow> bool" where
  "js_gt a b = js_lt b a"

fun Math_max2 :: "jsnum \<Rightarrow> jsnum \<Rightarrow> jsnum" where
  "Math_max2 (Num a) (Num b) = Num (max a b)"
| "Math_max2 _ _ = NaN"

fun Math_min2 :: "jsnum \<Rightarrow> jsnum \<Rightarrow> jsnum" where
  "Math_min2 (Num a) (Num b) = Num (min a b)"
| "Math_min2 _ _ = NaN"

definition Math_max :: "jsnum list \<Rightarrow> jsnum \<Rightarrow> jsnum" where
  \<comment> \<open>\<open>Math.max(...xs, c)\<close>: both calls of the source end with a constant argument\<close>
  "Math_max xs c = fold Math_max2 xs c"

fun js_add :: "jsnum \<Rightarrow> jsnum \<Rightarrow> jsnum" where
  "js_add (Num a) (Num b) = Num (a + b)"
| "js_add _ _ = NaN"

fun js_sub :: "jsnum \<Rightarrow> jsnum \<Rightarrow> jsnum" where
  "js_sub (Num a) (Num b) = Num (a - b)"
| "js_sub _ _ = NaN"

fun js_mul :: "jsnum \<Rightarrow> jsnum \<Rightarrow> jsnum" where
  "js_mul (Num a) (Num b) = Num (a * b)"
| "js_mul _ _ = NaN"

fun js_div :: "jsnum \<Rightarrow> jsnum \<Rightarrow> jsnum" where
  \<comment> \<open>a zero divisor (an infinity in JavaScript) is outside the model, see above\<close>
  "js_div (Num a) (Num b) = (if b = 0 then NaN else Num (a / b))"
| "js_div _ _ = NaN"

fun orNum :: "jsnum \<Rightarrow> jsnum \<Rightarrow> jsnum" where
  \<comment> \<open>\<open>a || b\<close> on numbers: \<open>NaN\<close> and 0 are falsy\<close>
  "orNum (Num a) b = (if a = 0 then b else Num a)"
| "orNum NaN b = b"

definition orString :: "jsstring option \<Rightarrow> jsstring \<Rightarrow> jsstring" where
  \<comment> \<open>\<open>a || b\<close> on an optional string: absent, \<open>null\<close> and \<open>''\<close> are falsy\<close>
  "orString a b = (case a of None \<Rightarrow> b | Some t \<Rightarrow> if t = [] then b else t)"

subsection \<open>\<open>parseInt\<close> and the digit pattern\<close>

definition digitValue :: "16 word \<Rightarrow> nat option" where
  "digitValue c =
     (if 0x30 \<le> c \<and> c \<le> 0x39 then Some (unat (c - 0x30))
      else if 0x61 \<le> c \<and> c \<le> 0x7A then Some (unat (c - 0x61) + 10)
      else if 0x41 \<le> c \<and> c \<le> 0x5A then Some (unat (c - 0x41) + 10)
      else None)"

definition isRadixDigit :: "nat \<Rightarrow> 16 word \<Rightarrow> bool" where
  "isRadixDigit R c = (case digitValue c of None \<Rightarrow> False | Some d \<Rightarrow> d < R)"

definition radixValue :: "nat \<Rightarrow> jsstring \<Rightarrow> nat" where
  "radixValue R Z =
     foldl (\<lambda>acc c. case digitValue c of None \<Rightarrow> acc | Some d \<Rightarrow> acc * R + d) 0 Z"

definition parseInt :: "jsstring \<Rightarrow> jsnum" where
  \<comment> \<open>\<open>parseInt(string)\<close> with no radix: leading white space, a sign, a \<open>0x\<close> prefix, then
      the longest run of digits of the radix; \<open>NaN\<close> when that run is empty\<close>
  "parseInt string =
     (let S = trimStart string;
          sign = (if startsWith S (ustr ''-'') then - 1 else 1);
          S = (if startsWith S (ustr ''+'') \<or> startsWith S (ustr ''-'') then tl S else S);
          hex = (startsWith S (ustr ''0x'') \<or> startsWith S (ustr ''0X''));
          R = (if hex then 16 else 10);
          S = (if hex then drop 2 S else S);
          Z = takeWhile (isRadixDigit R) S
      in if Z = [] then NaN else Num (sign * of_nat (radixValue R Z)))"

definition parseIntOpt :: "jsstring option \<Rightarrow> jsnum" where
  \<comment> \<open>\<open>parseInt(v)\<close> for a field that may be absent: \<open>undefined\<close> is first turned into
      the string \<open>'undefined'\<close> (and \<open>null\<close> into \<open>'null'\<close>, with the same result)\<close>
  "parseIntOpt v = (case v of None \<Rightarrow> parseInt (ustr ''undefined'') | Some t \<Rightarrow> parseInt t)"

definition isDigit :: "16 word \<Rightarrow> bool" where
  "isDigit c \<longleftrightarrow> 0x30 \<le> c \<and> c \<le> 0x39"

definition matchDigits :: "jsstring \<Rightarrow> jsstring option" where
  \<comment> \<open>\<open>t.match(/\d+/)?.[0]\<close>: the leftmost maximal run of ASCII digits, if there is one\<close>
  "matchDigits t =
     (let run = takeWhile isDigit (dropWhile (\<lambda>c. \<not> isDigit c) t)
      in if run = [] then None else Some run)"

definition firstDigits :: "jsstring option \<Rightarrow> jsstring option" where
  \<comment> \<open>\<open>v?.match(/\d+/)?.[0]\<close>\<close>
  "firstDigits v = (case v of None \<Rightarrow> None | Some t \<Rightarrow> matchDigits t)"

section \<open>City-name normalization (\<open>normalizeCity\<close>)\<close>

text \<open>
  A city read from the data set is \<open>None\<close> when the field is absent or \<open>null\<close>. The
  guard \<open>!city\<close> also catches the empty string.
\<close>

definition normalizeCity :: "(jsstring \<Rightarrow> jsstring) \<Rightarrow> jsstring option \<Rightarrow> jsstring option" where
  "normalizeCity lower city =
     (case city of
        None \<Rightarrow> None
      | Some c \<Rightarrow>
          if c = [] then None
          else
            let normalized = trim c in
            if lower normalized = ustr ''istanbul'' \<or> normalized = Istanbul then Some Istanbul
            else Some normalized)"

section \<open>Partner records and the data loader\<close>

text \<open>
  A record of the data set holds display strings; a field is \<open>None\<close> when it is absent
  or \<open>null\<close>. The name is read without a guard (\<open>p.name.toLowerCase()\<close>), unlike the
  fields read through \<open>?.\<close>, so it is a mandatory string. The loader spreads the raw
  record and adds the derived fields, which the record extension mirrors.
\<close>

record raw_partner =
  name :: jsstring
  level :: "jsstring option"
  city :: "jsstring option"
  country :: "jsstring option"
  average_project_size :: "jsstring option"
  large_project_size :: "jsstring option"
  references_count :: "jsstring option"
  certified_experts_count :: "jsstring option"
  district :: "jsstring option"
  profile_url :: "jsstring option"

record partner = raw_partner +
  average_users :: jsnum
  large_users :: jsnum
  references :: jsnum
  experts :: jsnum
  displayCity :: "jsstring option"
  districtValue :: jsnum

definition enhance :: "(jsstring \<Rightarrow> jsstring) \<Rightarrow> raw_partner \<Rightarrow> partner" where
  "enhance lower p =
     (let rawCity = (if city p = Some Turkiye then country p else city p)
      in raw_partner.extend p
           (partner.fields
              (parseInt (orString (firstDigits (average_project_size p)) (ustr ''0'')))
              (parseInt (orString (firstDigits (large_project_size p)) (ustr ''0'')))
              (parseInt (orString (references_count p) (ustr ''0'')))
              (parseInt (orString (certified_experts_count p) (ustr ''0'')))
              (normalizeCity lower rawCity)
              (orNum (parseIntOpt (district p)) (Num 0))))"

definition enhancedPartners :: "(jsstring \<Rightarrow> jsstring) \<Rightarrow> raw_partner list \<Rightarrow> partner list" where
  "enhancedPartners lower data = map (enhance lower) data"

section \<open>Filter state, filter domains and the filter pipeline\<close>

record filter_state =
  levels :: "jsstring list"
  minReferences :: jsnum
  maxReferences :: jsnum
  selectedCities :: "jsstring list"

definition initialFilters :: filter_state where
  "initialFilters =
     \<lparr> levels = [ustr ''Gold'', ustr ''Silver'', ustr ''Ready''],
       minReferences = Num 0,
       maxReferences = Num 100,
       selectedCities = [] \<rparr>"

definition newSet :: "'a list \<Rightarrow> 'a list" where
  \<comment> \<open>\<open>[...new Set(xs)]\<close>: the distinct values, in the order of their first occurrence\<close>
  "newSet xs = fold (\<lambda>v acc. if v \<in> set acc then acc else acc @ [v]) xs []"

definition filterBoolean :: "jsstring option list \<Rightarrow> jsstring list" where
  \<comment> \<open>\<open>.filter(Boolean)\<close>: drops \<open>null\<close> and the empty string\<close>
  "filterBoolean vs =
     List.map_filter (\<lambda>v. case v of None \<Rightarrow> None | Some t \<Rightarrow> if t = [] then None else Some t) vs"

definition maxRefs :: "partner list \<Rightarrow> jsnum" where
  "maxRefs ps = Math_max (map references ps) (Num 100)"

definition uniqueCities :: "partner list \<Rightarrow> jsstring list" where
  \<comment> \<open>the default \<open>sort()\<close> orders strings by their code units\<close>
  "uniqueCities ps = sort (filterBoolean (newSet (map displayCity ps)))"

definition includesOpt :: "jsstring list \<Rightarrow> jsstring option \<Rightarrow> bool" where
  \<comment> \<open>\<open>xs.includes(v)\<close> for a list of strings and a value that may be \<open>null\<close> or absent\<close>
  "includesOpt xs v = (case v of None \<Rightarrow> False | Some t \<Rightarrow> t \<in> set xs)"

definition applyFilters ::
  "(jsstring \<Rightarrow> jsstring) \<Rightarrow> partner list \<Rightarrow> jsstring \<Rightarrow> filter_state \<Rightarrow> partner list" where
  \<comment> \<open>the body of the filter effect, for partners \<open>ps\<close>, search query \<open>q\<close> and filters \<open>f\<close>\<close>
  "applyFilters lower ps q f =
     (let result = ps;
          result =
            (if q \<noteq> [] then
               let query = lower q in
               filter (\<lambda>p. includes_str (lower (name p)) query \<or>
                          (case displayCity p of
                             None \<Rightarrow> False
                           | Some c \<Rightarrow> includes_str (lower c) query)) result
             else result);
          result =
            (if length (levels f) > 0 then filter (\<lambda>p. includesOpt (levels f) (level p)) result
             else result);
          result =
            filter (\<lambda>p. js_ge (references p) (minReferences f) \<and>
                       js_le (references p) (maxReferences f)) result;
          result = filter (\<lambda>p. includesOpt (selectedCities f) (displayCity p)) result
      in result)"

definition toggleLevel :: "jsstring \<Rightarrow> filter_state \<Rightarrow> filter_state" where
  "toggleLevel lvl prev =
     prev\<lparr> levels :=
       (if lvl \<in> set (levels prev) then filter (\<lambda>l. l \<noteq> lvl) (levels prev)
        else levels prev @ [lvl]) \<rparr>"

definition toggleCity :: "jsstring \<Rightarrow> filter_state \<Rightarrow> filter_state" where
  "toggleCity c prev =
     prev\<lparr> selectedCities :=
       (if c \<in> set (selectedCities prev) then filter (\<lambda>d. d \<noteq> c) (selectedCities prev)
        else selectedCities prev @ [c]) \<rparr>"

datatype filter_key = MinReferences | MaxReferences

definition updateFilter :: "filter_key \<Rightarrow> jsnum \<Rightarrow> filter_state \<Rightarrow> filter_state" where
  \<comment> \<open>the sidebar calls \<open>updateFilter\<close> with these two keys and a parsed slider value\<close>
  "updateFilter key v prev =
     (case key of
        MinReferences \<Rightarrow> prev\<lparr> minReferences := v \<rparr>
      | MaxReferences \<Rightarrow> prev\<lparr> maxReferences := v \<rparr>)"

section \<open>The application state and its events\<close>

text \<open>
  The component's \<open>useState\<close> cells form the state. An event runs its setter; React
  then renders again and runs the filter effect when one of its dependencies
  \<open>[partners, searchQuery, filters]\<close> is a new value: the loader and the filter setters
  always install a new array or object, the search box a string that is compared by
  value, and the area-metric buttons touch none of them.
\<close>

record app =
  partners :: "partner list"
  filteredPartners :: "partner list"
  loading :: bool
  searchQuery :: jsstring
  sidebarOpen :: bool
  filters :: filter_state
  areaMetric :: jsstring

definition initialApp :: app where
  "initialApp =
     \<lparr> partners = [], filteredPartners = [], loading = True, searchQuery = [],
       sidebarOpen = True, filters = initialFilters, areaMetric = ustr ''references'' \<rparr>"

definition onData :: "(jsstring \<Rightarrow> jsstring) \<Rightarrow> raw_partner list \<Rightarrow> app \<Rightarrow> app" where
  \<comment> \<open>the \<open>then\<close> callback of the fetch\<close>
  "onData lower dat st =
     (let enhanced = enhancedPartners lower dat
      in st\<lparr> partners := enhanced,
             filteredPartners := enhanced,
             loading := False,
             filters := (filters st)\<lparr> maxReferences := maxRefs enhanced,
                                      selectedCities := uniqueCities enhanced \<rparr> \<rparr>)"

definition onError :: "app \<Rightarrow> app" where
  "onError st = st\<lparr> loading := False \<rparr>"

definition filterEffect :: "(jsstring \<Rightarrow> jsstring) \<Rightarrow> app \<Rightarrow> app" where
  "filterEffect lower st =
     st\<lparr> filteredPartners := applyFilters lower (partners st) (searchQuery st) (filters st) \<rparr>"

datatype event =
    DataLoaded "raw_partner list"
  | FetchFailed
  | SearchInput jsstring
  | LevelToggled jsstring
  | CityToggled jsstring
  | FilterUpdated filter_key jsnum
  | AreaMetricSet jsstring

fun setState :: "(jsstring \<Rightarrow> jsstring) \<Rightarrow> event \<Rightarrow> app \<Rightarrow> app" where
  "setState lower (DataLoaded dat) st = onData lower dat st"
| "setState lower FetchFailed st = onError st"
| "setState lower (SearchInput q) st = st\<lparr> searchQuery := q \<rparr>"
| "setState lower (LevelToggled lvl) st = st\<lparr> filters := toggleLevel lvl (filters st) \<rparr>"
| "setState lower (CityToggled c) st = st\<lparr> filters := toggleCity c (filters st) \<rparr>"
| "setState lower (FilterUpdated key v) st = st\<lparr> filters := updateFilter key v (filters st) \<rparr>"
| "setState lower (AreaMetricSet m) st = st\<lparr> areaMetric := m \<rparr>"

fun depsChanged :: "event \<Rightarrow> app \<Rightarrow> bool" where
  "depsChanged (DataLoaded dat) st = True"
| "depsChanged FetchFailed st = False"
| "depsChanged (SearchInput q) st = (q \<noteq> searchQuery st)"
| "depsChanged (LevelToggled lvl) st = True"
| "depsChanged (CityToggled c) st = True"
| "depsChanged (FilterUpdated key v) st = True"
| "depsChanged (AreaMetricSet m) st = False"

definition step :: "(jsstring \<Rightarrow> jsstring) \<Rightarrow> event \<Rightarrow> app \<Rightarrow> app" where
  "step lower ev st =
     (let st' = setState lower ev st
      in if depsChanged ev st then filterEffect lower st' else st')"

definition mounted :: "(jsstring \<Rightarrow> jsstring) \<Rightarrow> app" where
  \<comment> \<open>the state after the first render, when every effect has run once\<close>
  "mounted lower = filterEffect lower initialApp"

definition run :: "(jsstring \<Rightarrow> jsstring) \<Rightarrow> event list \<Rightarrow> app" where
  "run lower evs = fold (step lower) evs (mounted lower)"

section \<open>The treemap (\<open>TreeMapChart\<close>)\<close>

subsection \<open>Shades\<close>

text \<open>
  A palette entry has the three properties \<open>h\<close>, \<open>s\<close> and \<open>l\<close>. \<open>COLORS[level]\<close> is a
  property read on an object literal, so a key that \<open>Object.prototype\<close> defines
  yields an inherited function or object: truthy, and with none of the three
  properties (\<open>inherited\<close>). A missing property is \<open>undefined\<close>, here \<open>None\<close>; in
  arithmetic it is \<open>NaN\<close>. An absent level reads the key \<open>'undefined'\<close>.
\<close>

record hsl =
  hsl_h :: "jsnum option"
  hsl_s :: "jsnum option"
  hsl_l :: "jsnum option"

definition Gold :: hsl where
  "Gold = \<lparr> hsl_h = Some (Num 28), hsl_s = Some (Num 80), hsl_l = Some (Num 52) \<rparr>"

definition Silver :: hsl where
  "Silver = \<lparr> hsl_h = Some (Num 204), hsl_s = Some (Num 70), hsl_l = Some (Num 53) \<rparr>"

definition Ready :: hsl where
  "Ready = \<lparr> hsl_h = Some (Num 145), hsl_s = Some (Num 63), hsl_l = Some (Num 42) \<rparr>"

definition COLORS :: "(jsstring \<times> hsl) list" where
  "COLORS = [(ustr ''Gold'', Gold), (ustr ''Silver'', Silver), (ustr ''Ready'', Ready)]"

definition objectPrototypeKeys :: "jsstring list" where
  "objectPrototypeKeys =
     map ustr [''constructor'', ''hasOwnProperty'', ''isPrototypeOf'', ''propertyIsEnumerable'',
       ''toLocaleString'', ''toString'', ''valueOf'', ''__proto__'', ''__defineGetter__'',
       ''__defineSetter__'', ''__lookupGetter__'', ''__lookupSetter__'']"

definition inherited :: hsl where
  "inherited = \<lparr> hsl_h = None, hsl_s = None, hsl_l = None \<rparr>"

definition propertyKey :: "jsstring option \<Rightarrow> jsstring" where
  "propertyKey v = (case v of None \<Rightarrow> ustr ''undefined'' | Some t \<Rightarrow> t)"

definition COLORS_get :: "jsstring option \<Rightarrow> hsl option" where
  \<comment> \<open>\<open>COLORS[level]\<close>; \<open>None\<close> is \<open>undefined\<close>\<close>
  "COLORS_get lvl =
     (case map_of COLORS (propertyKey lvl) of
        Some c \<Rightarrow> Some c
      | None \<Rightarrow> if propertyKey lvl \<in> set objectPrototypeKeys then Some inherited else None)"

definition toNumber :: "jsnum option \<Rightarrow> jsnum" where
  "toNumber v = (case v of None \<Rightarrow> NaN | Some n \<Rightarrow> n)"

record fill =
  fill_h :: "jsnum option"
  fill_s :: "jsnum option"
  fill_l :: jsnum

definition getColorWithShade :: "jsstring option \<Rightarrow> jsnum \<Rightarrow> jsnum \<Rightarrow> fill" where
  \<comment> \<open>the three numbers that the template \<open>hsl(h, s%, l%)\<close> prints\<close>
  "getColorWithShade lvl v maxValue =
     (let base = (case COLORS_get lvl of Some c \<Rightarrow> c | None \<Rightarrow> Ready);
          ratio = Math_min2 (js_div v (Math_max2 maxValue (Num 1))) (Num 1);
          lightness = js_add (toNumber (hsl_l base)) (js_mul (js_sub (Num 1) ratio) (Num 12))
      in \<lparr> fill_h = hsl_h base, fill_s = hsl_s base, fill_l = lightness \<rparr>)"

text \<open>The palette entry that \<open>getColorWithShade\<close> takes as \<open>base\<close> for a level.\<close>

definition baseColor :: "jsstring option \<Rightarrow> hsl" where
  "baseColor lvl = (case COLORS_get lvl of Some c \<Rightarrow> c | None \<Rightarrow> Ready)"

subsection \<open>Boxes (\<open>CustomizedContent\<close>)\<close>









subsection \<open>Chart data\<close>

record chart_item =
  item_name :: jsstring
  item_size :: jsnum
  item_level :: "jsstring option"
  item_references :: jsnum
  item_average_users :: jsnum
  item_districtValue :: jsnum
  item_large_users :: jsnum
  item_experts :: jsnum
  item_displayCity :: "jsstring option"
  item_profile_url :: "jsstring option"
  item_index :: nat
  item_maxMetric :: jsnum

definition maxMetric :: "partner list \<Rightarrow> jsnum" where
  "maxMetric ps = Math_max (map references ps) (Num 1)"

definition sizeValue :: "jsstring \<Rightarrow> partner \<Rightarrow> jsnum" where
  "sizeValue metric p =
     (if metric = ustr ''district'' then Math_max2 (districtValue p) (Num 1)
      else Math_max2 (references p) (Num 1))"

definition chartItem :: "jsstring \<Rightarrow> jsnum \<Rightarrow> partner \<Rightarrow> nat \<Rightarrow> chart_item" where
  "chartItem metric mm p i =
     \<lparr> item_name = name p,
       item_size = sizeValue metric p,
       item_level = level p,
       item_references = references p,
       item_average_users = average_users p,
       item_districtValue = districtValue p,
       item_large_users = large_users p,
       item_experts = experts p,
       item_displayCity = displayCity p,
       item_profile_url = profile_url p,
       item_index = i,
       item_maxMetric = mm \<rparr>"

definition bySizeDesc :: "chart_item \<Rightarrow> chart_item \<Rightarrow> jsnum" where
  \<comment> \<open>the comparator \<open>(a, b) => b.size - a.size\<close>\<close>
  "bySizeDesc a b = js_sub (item_size b) (item_size a)"

fun insertSorted :: "('a \<Rightarrow> 'a \<Rightarrow> jsnum) \<Rightarrow> 'a \<Rightarrow> 'a list \<Rightarrow> 'a list" where
  "insertSorted cmp a [] = [a]"
| "insertSorted cmp a (b # bs) =
     (if js_gt (cmp a b) (Num 0) then b # insertSorted cmp a bs else a # b # bs)"

definition sortWith :: "('a \<Rightarrow> 'a \<Rightarrow> jsnum) \<Rightarrow> 'a list \<Rightarrow> 'a list" where
  \<comment> \<open>\<open>xs.sort(cmp)\<close>, a stable sort: an element moves behind those that the comparator
      puts strictly before it. With a \<open>NaN\<close> size the comparator is inconsistent and
      ECMAScript leaves the order to the engine; this is one such order.\<close>
  "sortWith cmp xs = foldr (insertSorted cmp) xs []"

definition chartData :: "jsstring \<Rightarrow> partner list \<Rightarrow> chart_item list" where
  "chartData metric ps =
     (if length ps = 0 then []
      else sortWith bySizeDesc
             (map (\<lambda>(p, i). chartItem metric (maxMetric ps) p i) (zip ps [0..<length ps])))"


subsection \<open>Tooltip placement (\<open>handleMouseMove\<close>)\<close>

record tooltip_pos =
  pos_x :: rat
  pos_y :: rat

definition handleMouseMove ::
  "bool \<Rightarrow> rat \<Rightarrow> rat \<Rightarrow> rat \<Rightarrow> rat \<Rightarrow> tooltip_pos \<Rightarrow> tooltip_pos" where
  \<comment> \<open>\<open>attached\<close>: \<open>containerRef.current\<close> is set; the last argument is the position
      held before the event\<close>
  "handleMouseMove attached viewportWidth viewportHeight clientX clientY tooltipPos =
     (if \<not> attached then tooltipPos
      else
        let tooltipWidth = 220;
            tooltipHeight = 180;
            posX = clientX + 16;
            posY = clientY + 16;
            posX = (if clientX + tooltipWidth + 30 > viewportWidth
                    then clientX - tooltipWidth - 16 else posX);
            posY = (if clientY + tooltipHeight + 30 > viewportHeight
                    then clientY - tooltipHeight - 16 else posY)
        in \<lparr> pos_x = posX, pos_y = posY \<rparr>)"

section \<open>The criteria of the filter pipeline\<close>

text \<open>
  What the filter effect computes, criterion by criterion: a partner stays visible when
  it meets the search criterion (vacuous for an empty query, otherwise the lower-cased
  name or the lower-cased display city contains the lower-cased query), the level
  criterion (vacuous for an empty selection), the inclusive reference range and the
  city selection.
\<close>

definition searchCriterion :: "(jsstring \<Rightarrow> jsstring) \<Rightarrow> jsstring \<Rightarrow> partner \<Rightarrow> bool" where
  "searchCriterion lower q p \<longleftrightarrow>
     q = [] \<or> includes_str (lower (name p)) (lower q) \<or>
     (case displayCity p of None \<Rightarrow> False | Some c \<Rightarrow> includes_str (lower c) (lower q))"

definition levelCriterion :: "filter_state \<Rightarrow> partner \<Rightarrow> bool" where
  "levelCriterion f p \<longleftrightarrow> levels f = [] \<or> includesOpt (levels f) (level p)"

definition referencesCriterion :: "filter_state \<Rightarrow> partner \<Rightarrow> bool" where
  "referencesCriterion f p \<longleftrightarrow>
     js_ge (references p) (minReferences f) \<and> js_le (references p) (maxReferences f)"

definition cityCriterion :: "filter_state \<Rightarrow> partner \<Rightarrow> bool" where
  "cityCriterion f p \<longleftrightarrow> includesOpt (selectedCities f) (displayCity p)"

definition visible :: "(jsstring \<Rightarrow> jsstring) \<Rightarrow> jsstring \<Rightarrow> filter_state \<Rightarrow> partner \<Rightarrow> bool" where
  "visible lower q f p \<longleftrightarrow>
     searchCriterion lower q p \<and> levelCriterion f p \<and> referencesCriterion f p \<and> cityCriterion f p"

text \<open>
  The same without the level criterion and with the name and the city compared as they
  are, not lower-cased: the reading under which the query is lower-cased and nothing
  else is.
\<close>

definition visibleAsClaimed ::
  "(jsstring \<Rightarrow> jsstring) \<Rightarrow> jsstring \<Rightarrow> filter_state \<Rightarrow> partner \<Rightarrow> bool" where
  "visibleAsClaimed lower q f p \<longleftrightarrow>
     (q = [] \<or> includes_str (name p) (lower q) \<or>
      (case displayCity p of None \<Rightarrow> False | Some c \<Rightarrow> includes_str c (lower q))) \<and>
     referencesCriterion f p \<and> cityCriterion f p"

text \<open>
  The sorted list of the distinct display cities that are not \<open>null\<close>, the empty string
  not excluded.
\<close>

definition citiesAsClaimed :: "partner list \<Rightarrow> jsstring list" where
  "citiesAsClaimed ps = sort (remdups (List.map_filter displayCity ps))"

text \<open>The visible subset held in the state is the one the current inputs give.\<close>

definition consistent :: "(jsstring \<Rightarrow> jsstring) \<Rightarrow> app \<Rightarrow> bool" where
  "consistent lower st \<longleftrightarrow>
     filteredPartners st = applyFilters lower (partners st) (searchQuery st) (filters st)"

section \<open>Example data\<close>

text \<open>
  Four records of a data set and the partners the loader makes of them. \<open>rawAcme\<close> has
  a lower-case, padded city; \<open>rawAcorn\<close> has the country name as its city and no
  references; \<open>rawDelta\<close> has no city and counts that are not numerals; \<open>rawBlank\<close> has
  a city of two spaces.
\<close>

definition rawAcme :: raw_partner where
  "rawAcme =
     \<lparr> name = ustr ''Acme'', level = Some (ustr ''Gold''), city = Some (ustr '' istanbul''),
       country = Some Turkiye, average_project_size = Some (ustr ''25 users''),
       large_project_size = Some (ustr ''100+''), references_count = Some (ustr ''12''),
       certified_experts_count = Some (ustr ''3''), district = Some (ustr ''85''),
       profile_url = None \<rparr>"

definition rawAcorn :: raw_partner where
  "rawAcorn =
     \<lparr> name = ustr ''acorn'', level = Some (ustr ''Silver''), city = Some Turkiye,
       country = Some (ustr ''Ankara''), average_project_size = None,
       large_project_size = None, references_count = Some (ustr ''0''),
       certified_experts_count = None, district = None, profile_url = None \<rparr>"

definition rawDelta :: raw_partner where
  "rawDelta =
     \<lparr> name = ustr ''Delta'', level = Some (ustr ''Ready''), city = None,
       country = None, average_project_size = Some (ustr ''n/a''),
       large_project_size = None, references_count = Some (ustr ''N/A''),
       certified_experts_count = Some (ustr ''few''), district = Some (ustr ''-''),
       profile_url = None \<rparr>"

definition rawBlank :: raw_partner where
  "rawBlank =
     \<lparr> name = ustr ''Blank'', level = None, city = Some (ustr ''  ''),
       country = None, average_project_size = None,
       large_project_size = None, references_count = Some (ustr ''7''),
       certified_experts_count = None, district = None, profile_url = None \<rparr>"

definition Acme :: partner where
  "Acme = raw_partner.extend rawAcme
     (partner.fields (Num 25) (Num 100) (Num 12) (Num 3) (Some Istanbul) (Num 85))"

definition Acorn :: partner where
  "Acorn = raw_partner.extend rawAcorn
     (partner.fields (Num 0) (Num 0) (Num 0) (Num 0) (Some (ustr ''Ankara'')) (Num 0))"

definition Delta :: partner where
  "Delta = raw_partner.extend rawDelta
     (partner.fields (Num 0) (Num 0) NaN NaN None (Num 0))"

definition Blank :: partner where
  "Blank = raw_partner.extend rawBlank
     (partner.fields (Num 0) (Num 0) (Num 7) (Num 0) (Some []) (Num 0))"

definition exampleFilters :: filter_state where
  "exampleFilters =
     \<lparr> levels = [ustr ''Gold''], minReferences = Num 0, maxReferences = Num 100,
       selectedCities = [ustr ''Ankara'', Istanbul] \<rparr>"

definition loadedFilters :: filter_state where
  "loadedFilters =
     \<lparr> levels = [ustr ''Gold'', ustr ''Silver'', ustr ''Ready''], minReferences = Num 0,
       maxReferences = Num 100, selectedCities = [ustr ''Ankara'', Istanbul] \<rparr>"

definition loadedApp :: app where
  "loadedApp =
     \<lparr> partners = [Acme, Acorn], filteredPartners = [Acme, Acorn], loading = False,
       searchQuery = [], sidebarOpen = True, filters = loadedFilters,
       areaMetric = ustr ''references'' \<rparr>"

definition exampleEvents :: "event list" where
  "exampleEvents =
     [DataLoaded [rawAcme, rawAcorn], SearchInput (ustr ''AC''), AreaMetricSet (ustr ''district''),
      LevelToggled (ustr ''Silver'')]"

text \<open>A partner whose level is none of the three tiers.\<close>

definition rawOmega :: raw_partner where
  "rawOmega =
     \<lparr> name = ustr ''Omega'', level = Some (ustr ''Bronze''), city = Some (ustr ''Ankara''),
       country = None, average_project_size = None, large_project_size = None,
       references_count = Some (ustr ''5''), certified_experts_count = None, district = None,
       profile_url = None \<rparr>"

definition Omega :: partner where
  "Omega = raw_partner.extend rawOmega
     (partner.fields (Num 0) (Num 0) (Num 5) (Num 0) (Some (ustr ''Ankara'')) (Num 0))"


section \<open>Properties\<close>

subsection \<open>Strings\<close>

lemmas str_defs = ustr_def Istanbul_def Turkiye_def isWhiteSpace_def trimStart_def trimEnd_def
  trim_def lowerUnit_def toLowerCaseLatin_def

lemma startsWith_iff: "startsWith s q \<longleftrightarrow> (\<exists>t. s = q @ t)"
  by (induction s q rule: startsWith.induct) auto

lemma includes_iff: "includes_str s q \<longleftrightarrow> (\<exists>a b. s = a @ q @ b)"
proof (induction s)
  case Nil
  then show ?case by auto
next
  case (Cons c cs)
  show ?case
  proof
    assume "includes_str (c # cs) q"
    then consider "startsWith (c # cs) q" | "includes_str cs q" by auto
    then show "\<exists>a b. c # cs = a @ q @ b"
    proof cases
      case 1
      then obtain t where "c # cs = q @ t" by (auto simp: startsWith_iff)
      then have "c # cs = [] @ q @ t" by simp
      then show ?thesis by blast
    next
      case 2
      then obtain a b where "cs = a @ q @ b" using Cons.IH by auto
      then have "c # cs = (c # a) @ q @ b" by simp
      then show ?thesis by blast
    qed
  next
    assume "\<exists>a b. c # cs = a @ q @ b"
    then obtain a b where ab: "c # cs = a @ q @ b" by auto
    show "includes_str (c # cs) q"
    proof (cases a)
      case Nil
      with ab have "startsWith (c # cs) q" by (auto simp: startsWith_iff)
      then show ?thesis by simp
    next
      case (Cons a0 as)
      with ab have "cs = as @ q @ b" by simp
      then have "includes_str cs q" using Cons.IH by auto
      then show ?thesis by simp
    qed
  qed
qed

lemma trim_decomposition:
  "\<exists>a b. s = a @ trim s @ b \<and> (\<forall>c \<in> set a. isWhiteSpace c) \<and> (\<forall>c \<in> set b. isWhiteSpace c)"
proof -
  let ?a = "takeWhile isWhiteSpace s"
  let ?m = "dropWhile isWhiteSpace s"
  let ?b = "rev (takeWhile isWhiteSpace (rev ?m))"
  have "?m = rev (rev ?m)" by simp
  also have "\<dots> = rev (takeWhile isWhiteSpace (rev ?m) @ dropWhile isWhiteSpace (rev ?m))"
    by simp
  also have "\<dots> = trim s @ ?b"
    by (simp only: rev_append trim_def trimEnd_def trimStart_def)
  finally have m: "?m = trim s @ ?b" .
  have "s = ?a @ ?m" by simp
  with m have "s = ?a @ trim s @ ?b" by simp
  moreover have "\<forall>c \<in> set ?a. isWhiteSpace c" by (auto dest: set_takeWhileD)
  moreover have "\<forall>c \<in> set ?b. isWhiteSpace c" by (auto dest: set_takeWhileD)
  ultimately show ?thesis by blast
qed

lemma trim_ends:
  "trim s \<noteq> [] \<Longrightarrow> \<not> isWhiteSpace (hd (trim s)) \<and> \<not> isWhiteSpace (last (trim s))"
proof -
  assume ne: "trim s \<noteq> []"
  let ?m = "dropWhile isWhiteSpace s"
  let ?r = "dropWhile isWhiteSpace (rev ?m)"
  have t: "trim s = rev ?r" by (simp add: trim_def trimEnd_def trimStart_def)
  with ne have rne: "?r \<noteq> []" by simp
  then have "\<not> isWhiteSpace (hd ?r)" by (rule hd_dropWhile)
  then have l: "\<not> isWhiteSpace (last (trim s))" using rne t by (simp add: last_rev)
  have mne: "?m \<noteq> []"
  proof
    assume "?m = []"
    then have "?r = []" by (simp only: rev.simps(1) dropWhile.simps(1))
    with rne show False by simp
  qed
  then have hm: "\<not> isWhiteSpace (hd ?m)" by (rule hd_dropWhile)
  have "rev ?m = takeWhile isWhiteSpace (rev ?m) @ ?r" by simp
  then have "?m = rev ?r @ rev (takeWhile isWhiteSpace (rev ?m))"
    by (metis rev_append rev_rev_ident)
  then have "hd ?m = hd (rev ?r)" using rne by (metis hd_append2 rev_is_Nil_conv)
  with hm t have "\<not> isWhiteSpace (hd (trim s))" by simp
  with l show ?thesis by simp
qed

subsection \<open>Normalization\<close>

text \<open>
  Claim C2. \<open>normalizeCity\<close> maps a raw city to its canonical display name: an absent,
  \<open>null\<close> or empty city gives \<open>null\<close>; a city whose trimmed form lower-cases to
  \<open>'istanbul'\<close>, or is exactly the dotted-capital spelling \<open>Istanbul\<close>, gives that spelling; every other city
  gives its trimmed form unchanged.
\<close>

theorem normalizeCity_canonical:
  "normalizeCity lower None = None \<and>
   normalizeCity lower (Some []) = None \<and>
   (c \<noteq> [] \<and> (lower (trim c) = ustr ''istanbul'' \<or> trim c = Istanbul) \<longrightarrow>
      normalizeCity lower (Some c) = Some Istanbul) \<and>
   (c \<noteq> [] \<and> lower (trim c) \<noteq> ustr ''istanbul'' \<and> trim c \<noteq> Istanbul \<longrightarrow>
      normalizeCity lower (Some c) = Some (trim c))"
  by (simp add: normalizeCity_def Let_def)

theorem normalizeCity_canonical_witness:
  "normalizeCity toLowerCaseLatin (Some (ustr ''  ISTANBUL '')) = Some Istanbul \<and>
   normalizeCity toLowerCaseLatin (Some (0x20 # Istanbul)) = Some Istanbul \<and>
   normalizeCity toLowerCaseLatin (Some (ustr '' Ankara'')) = Some (ustr ''Ankara'')"
proof -
  have a: "ustr ''  ISTANBUL '' \<noteq> [] \<and>
      (toLowerCaseLatin (trim (ustr ''  ISTANBUL '')) = ustr ''istanbul'' \<or>
       trim (ustr ''  ISTANBUL '') = Istanbul)"
    by (simp add: str_defs)
  have b: "0x20 # Istanbul \<noteq> [] \<and>
      (toLowerCaseLatin (trim (0x20 # Istanbul)) = ustr ''istanbul'' \<or>
       trim (0x20 # Istanbul) = Istanbul)"
    by (simp add: str_defs)
  have c: "ustr '' Ankara'' \<noteq> [] \<and>
      toLowerCaseLatin (trim (ustr '' Ankara'')) \<noteq> ustr ''istanbul'' \<and>
      trim (ustr '' Ankara'') \<noteq> Istanbul"
    by (simp add: str_defs)
  have d: "trim (ustr '' Ankara'') = ustr ''Ankara''"
    by (simp add: str_defs)
  from a b c d normalizeCity_canonical [of toLowerCaseLatin "ustr ''  ISTANBUL ''"]
    normalizeCity_canonical [of toLowerCaseLatin "0x20 # Istanbul"]
    normalizeCity_canonical [of toLowerCaseLatin "ustr '' Ankara''"]
  show ?thesis by metis
qed

subsection \<open>Evaluating the examples\<close>

lemmas num_defs = digitValue_def isRadixDigit_def radixValue_def parseInt_def parseIntOpt_def
  isDigit_def matchDigits_def firstDigits_def orString_def Let_def

lemmas example_defs = rawAcme_def rawAcorn_def rawDelta_def rawBlank_def Acme_def Acorn_def
  Delta_def Blank_def
  raw_partner.defs partner.defs

lemmas filter_defs = applyFilters_def includesOpt_def js_ge_def js_gt_def exampleFilters_def
  visible_def searchCriterion_def levelCriterion_def referencesCriterion_def cityCriterion_def

lemma enhance_Acme: "enhance toLowerCaseLatin rawAcme = Acme"
  by (simp add: enhance_def normalizeCity_def example_defs str_defs num_defs)

lemma enhance_Acorn: "enhance toLowerCaseLatin rawAcorn = Acorn"
  by (simp add: enhance_def normalizeCity_def example_defs str_defs num_defs)

lemma enhance_Delta: "enhance toLowerCaseLatin rawDelta = Delta"
  by (simp add: enhance_def normalizeCity_def example_defs str_defs num_defs)

lemma enhance_Blank: "enhance toLowerCaseLatin rawBlank = Blank"
  by (simp add: enhance_def normalizeCity_def example_defs str_defs num_defs)

lemma Acme_visible: "visible toLowerCaseLatin (ustr ''AC'') exampleFilters Acme"
  by (simp add: filter_defs example_defs str_defs)

lemma Acorn_hidden: "\<not> visible toLowerCaseLatin (ustr ''AC'') exampleFilters Acorn"
  by (simp add: filter_defs example_defs str_defs)

lemma Delta_hidden: "\<not> visible toLowerCaseLatin (ustr ''AC'') exampleFilters Delta"
  by (simp add: filter_defs example_defs str_defs)

lemma onData_example:
  "onData toLowerCaseLatin [rawAcme, rawAcorn] initialApp =
     \<lparr> partners = [Acme, Acorn], filteredPartners = [Acme, Acorn], loading = False,
       searchQuery = [], sidebarOpen = True,
       filters = \<lparr> levels = [ustr ''Gold'', ustr ''Silver'', ustr ''Ready''],
                   minReferences = Num 0, maxReferences = Num 100,
                   selectedCities = [ustr ''Ankara'', Istanbul] \<rparr>,
       areaMetric = ustr ''references'' \<rparr>"
proof -
  have e: "enhancedPartners toLowerCaseLatin [rawAcme, rawAcorn] = [Acme, Acorn]"
    by (simp add: enhancedPartners_def enhance_Acme enhance_Acorn)
  have m: "maxRefs [Acme, Acorn] = Num 100"
    by (simp add: maxRefs_def Math_max_def example_defs)
  have u: "uniqueCities [Acme, Acorn] = [ustr ''Ankara'', Istanbul]"
    by (simp add: uniqueCities_def newSet_def filterBoolean_def List.map_filter_simps
        example_defs str_defs)
  show ?thesis
    by (simp add: onData_def Let_def e m u initialApp_def initialFilters_def)
qed

lemma loaded_all_visible:
  "applyFilters toLowerCaseLatin [Acme, Acorn] [] loadedFilters = [Acme, Acorn]"
  by (simp add: applyFilters_def includesOpt_def js_ge_def loadedFilters_def example_defs str_defs)

lemma loaded_search_visible:
  "applyFilters toLowerCaseLatin [Acme, Acorn] (ustr ''AC'') loadedFilters = [Acme, Acorn]"
  by (simp add: applyFilters_def includesOpt_def js_ge_def loadedFilters_def example_defs str_defs)

lemma toggled_visible:
  "applyFilters toLowerCaseLatin [Acme, Acorn] (ustr ''AC'')
     (toggleLevel (ustr ''Silver'') loadedFilters) = [Acme]"
  by (simp add: applyFilters_def includesOpt_def js_ge_def loadedFilters_def toggleLevel_def
      example_defs str_defs)

subsection \<open>The filter pipeline\<close>

lemma applyFilters_visible: "applyFilters lower ps q f = filter (visible lower q f) ps"
  by (auto simp: applyFilters_def visible_def searchCriterion_def levelCriterion_def
      referencesCriterion_def cityCriterion_def Let_def intro!: filter_cong)

lemma step_consistent: "consistent lower st \<Longrightarrow> consistent lower (step lower ev st)"
  by (cases ev) (simp_all add: consistent_def step_def filterEffect_def onError_def Let_def)

lemma fold_step_consistent:
  "consistent lower st \<Longrightarrow> consistent lower (fold (step lower) evs st)"
  by (induction evs arbitrary: st) (simp_all add: step_consistent)

lemma mounted_consistent: "consistent lower (mounted lower)"
  by (simp add: mounted_def consistent_def filterEffect_def)

lemma run_consistent: "consistent lower (run lower evs)"
  by (simp add: run_def fold_step_consistent mounted_consistent)

lemma mounted_eq: "mounted lower = initialApp"
  by (simp add: mounted_def filterEffect_def initialApp_def applyFilters_def)

lemma step_loaded:
  "step toLowerCaseLatin (DataLoaded [rawAcme, rawAcorn]) initialApp = loadedApp"
  using loaded_all_visible
  by (simp add: step_def filterEffect_def onData_example loadedFilters_def loadedApp_def)

lemma step_search:
  "step toLowerCaseLatin (SearchInput (ustr ''AC'')) loadedApp =
     loadedApp\<lparr> searchQuery := ustr ''AC'' \<rparr>"
  using loaded_search_visible
  by (simp add: step_def filterEffect_def loadedApp_def ustr_def)

lemma step_metric:
  "step toLowerCaseLatin (AreaMetricSet (ustr ''district''))
     (loadedApp\<lparr> searchQuery := ustr ''AC'' \<rparr>) =
     loadedApp\<lparr> searchQuery := ustr ''AC'', areaMetric := ustr ''district'' \<rparr>"
  by (simp add: step_def)

lemma step_toggle:
  "step toLowerCaseLatin (LevelToggled (ustr ''Silver''))
     (loadedApp\<lparr> searchQuery := ustr ''AC'', areaMetric := ustr ''district'' \<rparr>) =
     loadedApp\<lparr> searchQuery := ustr ''AC'', areaMetric := ustr ''district'',
       filters := toggleLevel (ustr ''Silver'') loadedFilters, filteredPartners := [Acme] \<rparr>"
  using toggled_visible
  by (simp add: step_def filterEffect_def loadedApp_def)

lemma run_example:
  "run toLowerCaseLatin exampleEvents =
     loadedApp\<lparr> searchQuery := ustr ''AC'', areaMetric := ustr ''district'',
       filters := toggleLevel (ustr ''Silver'') loadedFilters, filteredPartners := [Acme] \<rparr>"
  by (simp only: run_def exampleEvents_def fold_simps o_apply mounted_eq step_loaded step_search
      step_metric step_toggle)

text \<open>
  Claim C1, as amended. The visible subset is the list of the partners that meet all
  four criteria: the search criterion, which compares the lower-cased name and the
  lower-cased display city with the lower-cased query, the level criterion, the
  reference range and the city selection. After every sequence of events (data loaded,
  search input, level or city toggled, slider moved, area metric changed) the visible
  subset held in the state is the one of the current partners, query and filters.
\<close>

theorem filter_pipeline_criteria:
  "applyFilters lower ps q f = filter (visible lower q f) ps \<and>
   filteredPartners (run lower evs) =
     filter (visible lower (searchQuery (run lower evs)) (filters (run lower evs)))
       (partners (run lower evs))"
  using run_consistent [of lower evs] by (simp add: consistent_def applyFilters_visible)

theorem filter_pipeline_criteria_witness:
  "applyFilters toLowerCaseLatin [Acme, Acorn, Delta] (ustr ''AC'') exampleFilters = [Acme] \<and>
   filteredPartners (run toLowerCaseLatin exampleEvents) = [Acme]"
proof -
  have "filter (visible toLowerCaseLatin (ustr ''AC'') exampleFilters) [Acme, Acorn, Delta] = [Acme]"
    by (simp add: Acme_visible Acorn_hidden Delta_hidden)
  moreover have "filteredPartners (run toLowerCaseLatin exampleEvents) = [Acme]"
    by (simp add: run_example)
  ultimately show ?thesis
    using filter_pipeline_criteria
      [of toLowerCaseLatin "[Acme, Acorn, Delta]" "ustr ''AC''" exampleFilters exampleEvents]
    by simp
qed

text \<open>
  The claim without the amendment fails. With the query \<open>AC\<close> and only \<open>Gold\<close>
  selected, the pipeline shows the Gold partner \<open>Acme\<close>, whose name contains the query
  only after lower-casing, and hides the Silver partner \<open>acorn\<close>; the three criteria of
  the unamended claim select exactly the other one.
\<close>

theorem filter_pipeline_as_claimed_counterexample:
  "applyFilters toLowerCaseLatin [Acme, Acorn] (ustr ''AC'') exampleFilters = [Acme] \<and>
   filter (visibleAsClaimed toLowerCaseLatin (ustr ''AC'') exampleFilters) [Acme, Acorn] = [Acorn]"
  by (simp add: filter_defs visibleAsClaimed_def example_defs str_defs)

text \<open>
  Claim C8. Filtering is deterministic: two states with equal partners, equal search
  queries and equal filters get equal visible subsets from the filter effect, whatever
  their other cells (the loading flag, the sidebar flag, the area metric, the visible
  subset held before) are.
\<close>

theorem filter_deterministic:
  "partners st = partners st' \<Longrightarrow> searchQuery st = searchQuery st' \<Longrightarrow> filters st = filters st' \<Longrightarrow>
   filteredPartners (filterEffect lower st) = filteredPartners (filterEffect lower st')"
  by (simp add: filterEffect_def)

theorem filter_deterministic_witness:
  "filteredPartners (filterEffect toLowerCaseLatin
      (loadedApp\<lparr> filteredPartners := [], loading := True, sidebarOpen := False,
         areaMetric := ustr ''district'' \<rparr>)) = [Acme, Acorn] \<and>
   filteredPartners (filterEffect toLowerCaseLatin loadedApp) = [Acme, Acorn]"
proof -
  have "filteredPartners (filterEffect toLowerCaseLatin loadedApp) = [Acme, Acorn]"
    using loaded_all_visible by (simp add: filterEffect_def loadedApp_def)
  moreover have
    "filteredPartners (filterEffect toLowerCaseLatin
        (loadedApp\<lparr> filteredPartners := [], loading := True, sidebarOpen := False,
           areaMetric := ustr ''district'' \<rparr>)) =
     filteredPartners (filterEffect toLowerCaseLatin loadedApp)"
    by (rule filter_deterministic) simp_all
  ultimately show ?thesis by simp
qed

text \<open>
  Claim C9. With no city selected the visible subset is empty, for every partner list,
  query and other filters; a partner whose display city is \<open>null\<close> is hidden too.
\<close>

theorem city_filter_empty_selection:
  "selectedCities f = [] \<Longrightarrow> applyFilters lower ps q f = []"
  by (simp add: applyFilters_visible visible_def cityCriterion_def includesOpt_def
      split: option.split)

theorem city_filter_empty_selection_witness:
  "displayCity Delta = None \<and>
   applyFilters toLowerCaseLatin [Acme, Acorn, Delta] [] (loadedFilters\<lparr> selectedCities := [] \<rparr>) = []"
proof -
  have "selectedCities (loadedFilters\<lparr> selectedCities := [] \<rparr>) = []" by simp
  then have "applyFilters toLowerCaseLatin [Acme, Acorn, Delta] []
      (loadedFilters\<lparr> selectedCities := [] \<rparr>) = []"
    by (rule city_filter_empty_selection)
  moreover have "displayCity Delta = None" by (simp add: example_defs)
  ultimately show ?thesis by simp
qed

text \<open>
  Claim C10, as amended. With no level selected the level criterion is skipped: the
  visible subset is the one of the three other criteria, so partners of every level
  pass. With all three tiers selected the visible subset is that subset without the
  partners whose level is none of the three; the two are equal when every partner's
  level is one of the three tiers.
\<close>

theorem level_filter_empty_selection:
  "applyFilters lower ps q (f\<lparr>levels := []\<rparr>) =
     filter (\<lambda>p. searchCriterion lower q p \<and> referencesCriterion f p \<and> cityCriterion f p) ps \<and>
   applyFilters lower ps q (f\<lparr>levels := levels initialFilters\<rparr>) =
     filter (\<lambda>p. includesOpt (levels initialFilters) (level p))
       (applyFilters lower ps q (f\<lparr>levels := []\<rparr>)) \<and>
   ((\<forall>p \<in> set ps. includesOpt (levels initialFilters) (level p)) \<longrightarrow>
      applyFilters lower ps q (f\<lparr>levels := []\<rparr>) =
      applyFilters lower ps q (f\<lparr>levels := levels initialFilters\<rparr>))"
  by (auto simp: applyFilters_visible visible_def levelCriterion_def referencesCriterion_def
      cityCriterion_def initialFilters_def intro!: filter_cong)

lemma enhance_Omega: "enhance toLowerCaseLatin rawOmega = Omega"
  by (simp add: enhance_def normalizeCity_def rawOmega_def Omega_def raw_partner.defs partner.defs
      str_defs num_defs)

lemma Omega_facts:
  "level Omega = Some (ustr ''Bronze'') \<and> references Omega = Num 5 \<and>
   displayCity Omega = Some (ustr ''Ankara'') \<and> level Acme = Some (ustr ''Gold'') \<and>
   references Acme = Num 12 \<and> displayCity Acme = Some Istanbul"
  by (simp add: Omega_def rawOmega_def example_defs)

lemma no_level_selected_example:
  "applyFilters toLowerCaseLatin [Acme, Omega] [] (loadedFilters\<lparr> levels := [] \<rparr>) = [Acme, Omega]"
  by (simp add: applyFilters_def includesOpt_def js_ge_def loadedFilters_def Omega_facts str_defs)

lemma all_levels_selected_example:
  "applyFilters toLowerCaseLatin [Acme, Omega] []
     (loadedFilters\<lparr> levels := levels initialFilters \<rparr>) = [Acme]"
  by (simp add: applyFilters_def includesOpt_def js_ge_def loadedFilters_def initialFilters_def
      Omega_facts str_defs)

theorem level_filter_empty_selection_witness:
  "applyFilters toLowerCaseLatin [Acme, Acorn] [] (loadedFilters\<lparr> levels := [] \<rparr>) = [Acme, Acorn] \<and>
   applyFilters toLowerCaseLatin [Acme, Acorn] [] (loadedFilters\<lparr> levels := levels initialFilters \<rparr>) =
     [Acme, Acorn] \<and>
   filter (\<lambda>p. includesOpt (levels initialFilters) (level p))
     (applyFilters toLowerCaseLatin [Acme, Omega] [] (loadedFilters\<lparr> levels := [] \<rparr>)) = [Acme]"
proof -
  have a: "\<forall>p \<in> set [Acme, Acorn]. includesOpt (levels initialFilters) (level p)"
    by (simp add: includesOpt_def initialFilters_def example_defs str_defs)
  have b: "loadedFilters\<lparr> levels := levels initialFilters \<rparr> = loadedFilters"
    by (simp add: loadedFilters_def initialFilters_def)
  from a level_filter_empty_selection [of toLowerCaseLatin "[Acme, Acorn]" "[]" loadedFilters]
  have "applyFilters toLowerCaseLatin [Acme, Acorn] [] (loadedFilters\<lparr> levels := [] \<rparr>) =
      applyFilters toLowerCaseLatin [Acme, Acorn] []
        (loadedFilters\<lparr> levels := levels initialFilters \<rparr>)"
    by blast
  with b loaded_all_visible
  have c: "applyFilters toLowerCaseLatin [Acme, Acorn] [] (loadedFilters\<lparr> levels := [] \<rparr>) = [Acme, Acorn] \<and>
      applyFilters toLowerCaseLatin [Acme, Acorn] [] (loadedFilters\<lparr> levels := levels initialFilters \<rparr>) =
        [Acme, Acorn]"
    by simp
  from level_filter_empty_selection [of toLowerCaseLatin "[Acme, Omega]" "[]" loadedFilters]
  have "filter (\<lambda>p. includesOpt (levels initialFilters) (level p))
       (applyFilters toLowerCaseLatin [Acme, Omega] [] (loadedFilters\<lparr> levels := [] \<rparr>)) =
      applyFilters toLowerCaseLatin [Acme, Omega] []
        (loadedFilters\<lparr> levels := levels initialFilters \<rparr>)"
    by simp
  with all_levels_selected_example c show ?thesis by simp
qed

text \<open>
  The claim without the amendment fails on a partner of another level: \<open>Omega\<close>, of
  level \<open>Bronze\<close>, is visible with no level selected and hidden with all three
  selected.
\<close>

theorem level_filter_as_claimed_counterexample:
  "applyFilters toLowerCaseLatin [Acme, Omega] [] (loadedFilters\<lparr> levels := [] \<rparr>) = [Acme, Omega] \<and>
   applyFilters toLowerCaseLatin [Acme, Omega] []
     (loadedFilters\<lparr> levels := levels initialFilters \<rparr>) = [Acme]"
  by (simp add: no_level_selected_example all_levels_selected_example)

subsection \<open>Shades\<close>

















lemmas color_defs = getColorWithShade_def COLORS_get_def COLORS_def propertyKey_def toNumber_def
  objectPrototypeKeys_def inherited_def Gold_def Silver_def Ready_def baseColor_def

lemma gold_shades:
  "getColorWithShade (Some (ustr ''Gold'')) (Num 0) (Num 100) =
     \<lparr> fill_h = Some (Num 28), fill_s = Some (Num 80), fill_l = Num 64 \<rparr> \<and>
   getColorWithShade (Some (ustr ''Gold'')) (Num 50) (Num 100) =
     \<lparr> fill_h = Some (Num 28), fill_s = Some (Num 80), fill_l = Num 58 \<rparr> \<and>
   getColorWithShade (Some (ustr ''Gold'')) (Num 100) (Num 100) =
     \<lparr> fill_h = Some (Num 28), fill_s = Some (Num 80), fill_l = Num 52 \<rparr> \<and>
   getColorWithShade (Some (ustr ''Gold'')) (Num 150) (Num 100) =
     \<lparr> fill_h = Some (Num 28), fill_s = Some (Num 80), fill_l = Num 52 \<rparr>"
  by (simp add: color_defs ustr_def Let_def)

lemma unknown_level_shade:
  "getColorWithShade (Some (ustr ''Bronze'')) (Num 0) (Num 100) =
     \<lparr> fill_h = Some (Num 145), fill_s = Some (Num 63), fill_l = Num 54 \<rparr> \<and>
   getColorWithShade None (Num 0) (Num 100) =
     \<lparr> fill_h = Some (Num 145), fill_s = Some (Num 63), fill_l = Num 54 \<rparr> \<and>
   getColorWithShade (Some (ustr ''toString'')) (Num 0) (Num 100) =
     \<lparr> fill_h = None, fill_s = None, fill_l = NaN \<rparr>"
  by (simp add: color_defs ustr_def Let_def)



subsection \<open>Tooltip placement\<close>

text \<open>
  Claim C7. While the container is attached, a pointer position \<open>(cx, cy)\<close> puts the
  tooltip 16 pixels right of and below the cursor, except that it goes to
  \<open>cx - 220 - 16\<close> when \<open>cx + 220 + 30\<close> exceeds the viewport width and to
  \<open>cy - 180 - 16\<close> when \<open>cy + 180 + 30\<close> exceeds the viewport height. Each coordinate
  depends on its own axis only. Without the container the handler leaves the position
  as it is.
\<close>

theorem tooltip_placement:
  "handleMouseMove True vw vh cx cy pos =
     \<lparr> pos_x = (if cx + 220 + 30 > vw then cx - 220 - 16 else cx + 16),
       pos_y = (if cy + 180 + 30 > vh then cy - 180 - 16 else cy + 16) \<rparr> \<and>
   pos_x (handleMouseMove True vw vh cx cy pos) = pos_x (handleMouseMove True vw vh' cx cy' pos') \<and>
   pos_y (handleMouseMove True vw vh cx cy pos) = pos_y (handleMouseMove True vw' vh cx' cy pos') \<and>
   handleMouseMove False vw vh cx cy pos = pos"
  by (simp add: handleMouseMove_def Let_def)

theorem tooltip_placement_witness:
  "handleMouseMove True 1000 800 100 100 \<lparr> pos_x = 0, pos_y = 0 \<rparr> = \<lparr> pos_x = 116, pos_y = 116 \<rparr> \<and>
   handleMouseMove True 1000 800 900 100 \<lparr> pos_x = 0, pos_y = 0 \<rparr> = \<lparr> pos_x = 664, pos_y = 116 \<rparr> \<and>
   handleMouseMove True 1000 800 100 700 \<lparr> pos_x = 0, pos_y = 0 \<rparr> = \<lparr> pos_x = 116, pos_y = 504 \<rparr> \<and>
   handleMouseMove True 1000 800 751 591 \<lparr> pos_x = 0, pos_y = 0 \<rparr> = \<lparr> pos_x = 515, pos_y = 395 \<rparr> \<and>
   handleMouseMove True 1000 800 750 590 \<lparr> pos_x = 0, pos_y = 0 \<rparr> = \<lparr> pos_x = 766, pos_y = 606 \<rparr>"
  using tooltip_placement [of 1000 800 100 100 "\<lparr> pos_x = 0, pos_y = 0 \<rparr>"]
    tooltip_placement [of 1000 800 900 100 "\<lparr> pos_x = 0, pos_y = 0 \<rparr>"]
    tooltip_placement [of 1000 800 100 700 "\<lparr> pos_x = 0, pos_y = 0 \<rparr>"]
    tooltip_placement [of 1000 800 751 591 "\<lparr> pos_x = 0, pos_y = 0 \<rparr>"]
    tooltip_placement [of 1000 800 750 590 "\<lparr> pos_x = 0, pos_y = 0 \<rparr>"]
  by simp

subsection \<open>Filter domains\<close>

lemma fold_newSet_set:
  "set (fold (\<lambda>v acc. if v \<in> set acc then acc else acc @ [v]) xs acc) = set xs \<union> set acc"
  by (induction xs arbitrary: acc) auto

lemma fold_newSet_distinct:
  "distinct acc \<Longrightarrow> distinct (fold (\<lambda>v acc. if v \<in> set acc then acc else acc @ [v]) xs acc)"
  by (induction xs arbitrary: acc) auto

lemma set_newSet: "set (newSet xs) = set xs"
  by (simp add: newSet_def fold_newSet_set)

lemma distinct_newSet: "distinct (newSet xs)"
  by (simp add: newSet_def fold_newSet_distinct)

lemma set_filterBoolean: "set (filterBoolean vs) = {c. c \<noteq> [] \<and> Some c \<in> set vs}"
  by (induction vs) (auto simp: filterBoolean_def List.map_filter_simps split: option.splits)

lemma distinct_filterBoolean: "distinct vs \<Longrightarrow> distinct (filterBoolean vs)"
proof (induction vs)
  case Nil
  then show ?case by (simp add: filterBoolean_def List.map_filter_simps)
next
  case (Cons v vs)
  then have d: "distinct (filterBoolean vs)" and n: "v \<notin> set vs" by simp_all
  show ?case
  proof (cases v)
    case None
    with d show ?thesis by (simp add: filterBoolean_def List.map_filter_simps)
  next
    case (Some c)
    have "filterBoolean (v # vs) = (if c = [] then filterBoolean vs else c # filterBoolean vs)"
      by (simp add: filterBoolean_def List.map_filter_simps Some)
    moreover have "c \<notin> set (filterBoolean vs)"
      using n Some by (simp add: set_filterBoolean)
    ultimately show ?thesis using d by simp
  qed
qed

lemma uniqueCities_spec:
  "sorted (uniqueCities ps) \<and> distinct (uniqueCities ps) \<and>
   set (uniqueCities ps) = {c. c \<noteq> [] \<and> (\<exists>p \<in> set ps. displayCity p = Some c)}"
proof -
  have "set (uniqueCities ps) = {c. c \<noteq> [] \<and> Some c \<in> displayCity ` set ps}"
    by (simp add: uniqueCities_def set_filterBoolean set_newSet)
  also have "\<dots> = {c. c \<noteq> [] \<and> (\<exists>p \<in> set ps. displayCity p = Some c)}"
    by (auto intro: rev_image_eqI)
  finally show ?thesis
    by (simp add: uniqueCities_def distinct_filterBoolean distinct_newSet)
qed

lemma fold_max_NaN: "fold Math_max2 xs NaN = NaN"
  by (induction xs) simp_all

lemma Math_max_Num:
  "\<forall>x \<in> set xs. x \<noteq> NaN \<Longrightarrow>
   \<exists>m. Math_max xs (Num c) = Num m \<and> c \<le> m \<and> (\<forall>x \<in> set xs. js_le x (Num m)) \<and>
       (m = c \<or> Num m \<in> set xs)"
  unfolding Math_max_def
proof (induction xs arbitrary: c)
  case Nil
  then show ?case by simp
next
  case (Cons x xs)
  then obtain a where a: "x = Num a" by (cases x) auto
  from Cons.prems have "\<forall>y \<in> set xs. y \<noteq> NaN" by simp
  from Cons.IH [OF this, of "max a c"] obtain m where
    m: "fold Math_max2 xs (Num (max a c)) = Num m" "max a c \<le> m"
      "\<forall>y \<in> set xs. js_le y (Num m)" "m = max a c \<or> Num m \<in> set xs"
    by blast
  have "fold Math_max2 (x # xs) (Num c) = Num m" using m(1) a by simp
  moreover have "c \<le> m" using m(2) by simp
  moreover have "\<forall>y \<in> set (x # xs). js_le y (Num m)" using m(2,3) a by simp
  moreover have "m = c \<or> Num m \<in> set (x # xs)" using m(4) a by (auto simp: max_def)
  ultimately show ?case by blast
qed

lemma maxRefs_spec:
  assumes "\<forall>p \<in> set ps. references p \<noteq> NaN"
  shows "\<exists>m. maxRefs ps = Num m \<and> 100 \<le> m \<and> (\<forall>p \<in> set ps. js_le (references p) (Num m)) \<and>
     (m = 100 \<or> (\<exists>p \<in> set ps. references p = Num m))"
proof -
  from assms have "\<forall>x \<in> set (map references ps). x \<noteq> NaN" by simp
  from Math_max_Num [OF this, of 100] obtain m where
    "Math_max (map references ps) (Num 100) = Num m" "100 \<le> m"
    "\<forall>x \<in> set (map references ps). js_le x (Num m)" "m = 100 \<or> Num m \<in> set (map references ps)"
    by blast
  then have "maxRefs ps = Num m \<and> 100 \<le> m \<and> (\<forall>p \<in> set ps. js_le (references p) (Num m)) \<and>
     (m = 100 \<or> (\<exists>p \<in> set ps. references p = Num m))"
    by (auto simp: maxRefs_def)
  then show ?thesis ..
qed

lemma onData_fields:
  "partners (onData lower dat st) = enhancedPartners lower dat \<and>
   filters (onData lower dat st) =
     (filters st)\<lparr> maxReferences := maxRefs (enhancedPartners lower dat),
                   selectedCities := uniqueCities (enhancedPartners lower dat) \<rparr>"
  by (simp add: onData_def Let_def)

lemma onData_Blank:
  "partners (onData toLowerCaseLatin [rawBlank] initialApp) = [Blank] \<and>
   selectedCities (filters (onData toLowerCaseLatin [rawBlank] initialApp)) = []"
  by (simp add: onData_fields enhancedPartners_def enhance_Blank uniqueCities_def newSet_def
      filterBoolean_def List.map_filter_simps Blank_def raw_partner.defs partner.defs)

text \<open>
  Claim C4, as amended. After the data set is loaded, the partners are the enhanced
  records; when every \<open>references\<close> value is a number, \<open>maxReferences\<close> is the greatest
  of them and 100; \<open>selectedCities\<close> is the sorted list of the distinct display cities
  that are neither \<open>null\<close> nor empty; and the selected levels are still \<open>Gold\<close>,
  \<open>Silver\<close>, \<open>Ready\<close>, with \<open>minReferences\<close> 0.
\<close>

theorem filter_domains:
  fixes lower dat
  defines "st \<equiv> onData lower dat initialApp"
  shows
    "partners st = enhancedPartners lower dat \<and>
     ((\<forall>p \<in> set (partners st). references p \<noteq> NaN) \<longrightarrow>
        (\<exists>m. maxReferences (filters st) = Num m \<and> 100 \<le> m \<and>
             (\<forall>p \<in> set (partners st). js_le (references p) (Num m)) \<and>
             (m = 100 \<or> (\<exists>p \<in> set (partners st). references p = Num m)))) \<and>
     sorted (selectedCities (filters st)) \<and> distinct (selectedCities (filters st)) \<and>
     set (selectedCities (filters st)) =
       {c. c \<noteq> [] \<and> (\<exists>p \<in> set (partners st). displayCity p = Some c)} \<and>
     levels (filters st) = [ustr ''Gold'', ustr ''Silver'', ustr ''Ready''] \<and>
     minReferences (filters st) = Num 0"
proof -
  let ?ps = "enhancedPartners lower dat"
  have p: "partners st = ?ps"
    and f: "filters st = initialFilters\<lparr> maxReferences := maxRefs ?ps, selectedCities := uniqueCities ?ps \<rparr>"
    by (simp_all add: st_def onData_fields initialApp_def)
  have m: "(\<forall>p \<in> set ?ps. references p \<noteq> NaN) \<longrightarrow>
      (\<exists>m. maxRefs ?ps = Num m \<and> 100 \<le> m \<and> (\<forall>p \<in> set ?ps. js_le (references p) (Num m)) \<and>
           (m = 100 \<or> (\<exists>p \<in> set ?ps. references p = Num m)))"
    using maxRefs_spec [of ?ps] by blast
  show ?thesis
    using m uniqueCities_spec [of ?ps] by (simp add: p f initialFilters_def)
qed

theorem filter_domains_witness:
  "partners (onData toLowerCaseLatin [rawAcme, rawAcorn] initialApp) = [Acme, Acorn] \<and>
   maxReferences (filters (onData toLowerCaseLatin [rawAcme, rawAcorn] initialApp)) = Num 100 \<and>
   set (selectedCities (filters (onData toLowerCaseLatin [rawAcme, rawAcorn] initialApp))) =
     {ustr ''Ankara'', Istanbul} \<and>
   levels (filters (onData toLowerCaseLatin [rawAcme, rawAcorn] initialApp)) =
     [ustr ''Gold'', ustr ''Silver'', ustr ''Ready'']"
proof -
  note t = filter_domains [of toLowerCaseLatin "[rawAcme, rawAcorn]"]
  have e: "enhancedPartners toLowerCaseLatin [rawAcme, rawAcorn] = [Acme, Acorn]"
    by (simp add: enhancedPartners_def enhance_Acme enhance_Acorn)
  with t have p: "partners (onData toLowerCaseLatin [rawAcme, rawAcorn] initialApp) = [Acme, Acorn]"
    by simp
  have n: "\<forall>p \<in> set [Acme, Acorn]. references p \<noteq> NaN"
    by (simp add: example_defs)
  have r: "references Acme = Num 12 \<and> references Acorn = Num 0"
    by (simp add: example_defs)
  from t have "(\<forall>p \<in> set (partners (onData toLowerCaseLatin [rawAcme, rawAcorn] initialApp)).
        references p \<noteq> NaN) \<longrightarrow>
      (\<exists>m. maxReferences (filters (onData toLowerCaseLatin [rawAcme, rawAcorn] initialApp)) = Num m \<and>
          100 \<le> m \<and>
          (\<forall>p \<in> set (partners (onData toLowerCaseLatin [rawAcme, rawAcorn] initialApp)).
             js_le (references p) (Num m)) \<and>
          (m = 100 \<or> (\<exists>p \<in> set (partners (onData toLowerCaseLatin [rawAcme, rawAcorn] initialApp)).
             references p = Num m)))"
    by blast
  with n obtain m where
    m: "maxReferences (filters (onData toLowerCaseLatin [rawAcme, rawAcorn] initialApp)) = Num m"
      "m = 100 \<or> (\<exists>p \<in> set [Acme, Acorn]. references p = Num m)" "100 \<le> m"
    unfolding p by blast
  from m(2,3) r have "m = 100" by auto
  with m(1) have mx: "maxReferences (filters (onData toLowerCaseLatin [rawAcme, rawAcorn] initialApp)) = Num 100"
    by simp
  have d: "displayCity Acme = Some Istanbul \<and> displayCity Acorn = Some (ustr ''Ankara'') \<and>
      Istanbul \<noteq> [] \<and> ustr ''Ankara'' \<noteq> []"
    by (simp add: example_defs str_defs)
  from t have "set (selectedCities (filters (onData toLowerCaseLatin [rawAcme, rawAcorn] initialApp))) =
      {c. c \<noteq> [] \<and> (\<exists>p \<in> set (partners (onData toLowerCaseLatin [rawAcme, rawAcorn] initialApp)).
         displayCity p = Some c)}"
    by blast
  then have "set (selectedCities (filters (onData toLowerCaseLatin [rawAcme, rawAcorn] initialApp))) =
      {c. c \<noteq> [] \<and> (\<exists>p \<in> set [Acme, Acorn]. displayCity p = Some c)}"
    unfolding p .
  also have "\<dots> = {ustr ''Ankara'', Istanbul}"
    using d by auto
  finally have c: "set (selectedCities (filters (onData toLowerCaseLatin [rawAcme, rawAcorn] initialApp))) =
      {ustr ''Ankara'', Istanbul}" .
  from t have "levels (filters (onData toLowerCaseLatin [rawAcme, rawAcorn] initialApp)) =
      [ustr ''Gold'', ustr ''Silver'', ustr ''Ready'']"
    by blast
  with p mx c show ?thesis by simp
qed

text \<open>
  The claim without the amendment fails on a record whose city is two spaces: its
  display city is the empty string, which is not \<open>null\<close>, and \<open>filter(Boolean)\<close> drops
  it from \<open>selectedCities\<close>.
\<close>

theorem filter_domains_as_claimed_counterexample:
  "displayCity Blank = Some [] \<and>
   partners (onData toLowerCaseLatin [rawBlank] initialApp) = [Blank] \<and>
   selectedCities (filters (onData toLowerCaseLatin [rawBlank] initialApp)) = [] \<and>
   citiesAsClaimed (partners (onData toLowerCaseLatin [rawBlank] initialApp)) = [[]]"
  by (simp add: onData_Blank citiesAsClaimed_def List.map_filter_simps Blank_def
      raw_partner.defs partner.defs)

subsection \<open>The data loader\<close>

lemma parseInt_zero: "parseInt (ustr ''0'') = Num 0"
  by (simp add: str_defs num_defs)

lemma enhance_absent_count:
  "references_count p = None \<or> references_count p = Some [] \<Longrightarrow>
   references (enhance lower p) = Num 0"
  by (auto simp: enhance_def Let_def orString_def parseInt_zero raw_partner.defs partner.defs)

lemma enhance_districtValue_number: "districtValue (enhance lower p) \<noteq> NaN"
proof -
  have "orNum x (Num 0) \<noteq> NaN" for x by (cases x) simp_all
  then show ?thesis
    by (simp add: enhance_def Let_def raw_partner.defs partner.defs)
qed

lemma enhance_displayCity:
  "displayCity (enhance lower p) =
     normalizeCity lower (if city p = Some Turkiye then country p else city p)"
  by (simp add: enhance_def Let_def raw_partner.defs partner.defs)

text \<open>
  Claim C3 at the record \<open>rawDelta\<close>, whose \<open>references_count\<close> is \<open>'N/A'\<close> and whose
  \<open>certified_experts_count\<close> is \<open>'few'\<close>: the loader's \<open>references\<close> and \<open>experts\<close> are
  \<open>NaN\<close>, not 0, since the default \<open>'0'\<close> replaces only an absent or empty string,
  before \<open>parseInt\<close> runs. On the same record \<open>districtValue\<close> and \<open>average_users\<close>, whose
  sources are as unparsable, are 0.
\<close>

theorem enhance_unparsable_count:
  "references (enhance lower rawDelta) = NaN \<and> experts (enhance lower rawDelta) = NaN \<and>
   districtValue (enhance lower rawDelta) = Num 0 \<and> average_users (enhance lower rawDelta) = Num 0"
  by (simp add: enhance_def example_defs str_defs num_defs)

text \<open>
  One such record in the data set makes \<open>maxReferences\<close> \<open>NaN\<close>, and no partner is
  visible after loading.
\<close>

lemma js_le_NaN: "\<not> js_le x NaN"
  by (cases x) simp_all

lemma NaN_bound_hides_all: "maxReferences f = NaN \<Longrightarrow> applyFilters lower ps q f = []"
  by (simp add: applyFilters_visible visible_def referencesCriterion_def js_le_NaN)

lemma unparsable_count_hides_all:
  "maxReferences (filters (run toLowerCaseLatin [DataLoaded [rawAcme, rawDelta]])) = NaN \<and>
   filteredPartners (run toLowerCaseLatin [DataLoaded [rawAcme, rawDelta]]) = []"
proof -
  let ?st = "onData toLowerCaseLatin [rawAcme, rawDelta] initialApp"
  have e: "enhancedPartners toLowerCaseLatin [rawAcme, rawDelta] = [Acme, Delta]"
    by (simp add: enhancedPartners_def enhance_Acme enhance_Delta)
  have m: "maxRefs [Acme, Delta] = NaN"
    by (simp add: maxRefs_def Math_max_def example_defs)
  have r: "run toLowerCaseLatin [DataLoaded [rawAcme, rawDelta]] = filterEffect toLowerCaseLatin ?st"
    by (simp add: run_def step_def mounted_eq)
  have n: "maxReferences (filters ?st) = NaN"
    by (simp add: onData_fields e m)
  then have "applyFilters toLowerCaseLatin (partners ?st) (searchQuery ?st) (filters ?st) = []"
    by (rule NaN_bound_hides_all)
  with n show ?thesis
    by (simp add: r filterEffect_def)
qed

subsection \<open>Chart data\<close>

lemma set_insertSorted: "set (insertSorted cmp a xs) = insert a (set xs)"
  by (induction xs) auto

lemma length_insertSorted: "length (insertSorted cmp a xs) = Suc (length xs)"
  by (induction xs) auto

lemma set_sortWith: "set (sortWith cmp xs) = set xs"
  by (induction xs) (simp_all add: sortWith_def set_insertSorted)

lemma length_sortWith: "length (sortWith cmp xs) = length xs"
  by (induction xs) (simp_all add: sortWith_def length_insertSorted)

lemma chartData_length: "length (chartData metric ps) = length ps"
  by (simp add: chartData_def length_sortWith)

lemma chartData_set:
  "set (chartData metric ps) = {chartItem metric (maxMetric ps) (ps ! i) i | i. i < length ps}"
proof (cases "ps = []")
  case True
  then show ?thesis by (simp add: chartData_def)
next
  case False
  then have "set (chartData metric ps) =
      (\<lambda>(p, i). chartItem metric (maxMetric ps) p i) ` set (zip ps [0..<length ps])"
    by (simp add: chartData_def set_sortWith)
  also have "set (zip ps [0..<length ps]) = {(ps ! i, i) | i. i < length ps}"
    by (force simp: set_zip)
  also have "(\<lambda>(p, i). chartItem metric (maxMetric ps) p i) ` {(ps ! i, i) | i. i < length ps} =
      {chartItem metric (maxMetric ps) (ps ! i) i | i. i < length ps}"
    by force
  finally show ?thesis .
qed

lemma sizeValue_Num:
  "(districtValue p = Num v \<longrightarrow> sizeValue (ustr ''district'') p = Num (max v 1)) \<and>
   (metric \<noteq> ustr ''district'' \<and> references p = Num v \<longrightarrow> sizeValue metric p = Num (max v 1))"
  by (simp add: sizeValue_def)

lemma upt2: "[0..<length [a, b]] = [0, Suc 0]"
  by (simp add: upt_rec)

lemma example_numbers:
  "references Acme = Num 12 \<and> districtValue Acme = Num 85 \<and>
   references Acorn = Num 0 \<and> districtValue Acorn = Num 0"
  by (simp add: example_defs)

lemma maxMetric_example: "maxMetric [Acme, Acorn] = Num 12 \<and> maxMetric [Acorn, Acme] = Num 12"
  by (simp add: maxMetric_def Math_max_def example_numbers)

lemma chartData_references_example:
  "chartData (ustr ''references'') [Acme, Acorn] =
     [chartItem (ustr ''references'') (Num 12) Acme 0, chartItem (ustr ''references'') (Num 12) Acorn 1]"
  by (simp add: chartData_def upt2 maxMetric_example sortWith_def bySizeDesc_def chartItem_def
      sizeValue_def js_gt_def example_numbers ustr_def)

lemma chartData_district_example:
  "chartData (ustr ''district'') [Acorn, Acme] =
     [chartItem (ustr ''district'') (Num 12) Acme 1, chartItem (ustr ''district'') (Num 12) Acorn 0]"
  by (simp add: chartData_def upt2 maxMetric_example sortWith_def bySizeDesc_def chartItem_def
      sizeValue_def js_gt_def example_numbers ustr_def)

text \<open>
  Claim C5, as amended. The chart data has one item for each partner, and the size of
  an item is the greater of the selected metric and 1: \<open>districtValue\<close> for the metric
  \<open>'district'\<close>, \<open>references\<close> for every other. So a metric of at least 1 is the size
  itself, and a metric of 0 gives the size 1.
\<close>

theorem chart_sizes:
  "length (chartData metric ps) = length ps \<and>
   set (chartData metric ps) = {chartItem metric (maxMetric ps) (ps ! i) i | i. i < length ps} \<and>
   item_size (chartItem metric mm p i) = sizeValue metric p \<and>
   sizeValue (ustr ''district'') p = Math_max2 (districtValue p) (Num 1) \<and>
   (metric \<noteq> ustr ''district'' \<longrightarrow> sizeValue metric p = Math_max2 (references p) (Num 1)) \<and>
   (districtValue p = Num v \<longrightarrow> sizeValue (ustr ''district'') p = Num (max v 1)) \<and>
   (metric \<noteq> ustr ''district'' \<and> references p = Num v \<longrightarrow> sizeValue metric p = Num (max v 1))"
  using chartData_length [of metric ps] chartData_set [of metric ps] sizeValue_Num [of p v metric]
  by (simp add: chartItem_def sizeValue_def)

theorem chart_sizes_witness:
  "length (chartData (ustr ''references'') [Acme, Acorn]) = 2 \<and>
   chartItem (ustr ''references'') (maxMetric [Acme, Acorn]) Acorn 1
     \<in> set (chartData (ustr ''references'') [Acme, Acorn]) \<and>
   item_size (chartItem (ustr ''references'') (maxMetric [Acme, Acorn]) Acorn 1) = Num 1 \<and>
   item_size (chartItem (ustr ''references'') (maxMetric [Acme, Acorn]) Acme 0) = Num 12 \<and>
   item_size (chartItem (ustr ''district'') (maxMetric [Acme, Acorn]) Acme 0) = Num 85"
proof -
  have r: "ustr ''references'' \<noteq> ustr ''district'' \<and> references Acorn = Num 0"
    by (simp add: example_numbers ustr_def)
  have r': "ustr ''references'' \<noteq> ustr ''district'' \<and> references Acme = Num 12"
    by (simp add: example_numbers ustr_def)
  have d: "districtValue Acme = Num 85"
    by (simp add: example_numbers)
  note t = chart_sizes [where metric = "ustr ''references''" and ps = "[Acme, Acorn]"
      and mm = "maxMetric [Acme, Acorn]"]
  from t [where p = Acorn and i = 1 and v = 0] r
  have a: "length (chartData (ustr ''references'') [Acme, Acorn]) = 2"
    and s: "set (chartData (ustr ''references'') [Acme, Acorn]) =
       {chartItem (ustr ''references'') (maxMetric [Acme, Acorn]) ([Acme, Acorn] ! i) i | i.
          i < length [Acme, Acorn]}"
    and c: "item_size (chartItem (ustr ''references'') (maxMetric [Acme, Acorn]) Acorn 1) = Num 1"
    by simp_all
  have "chartItem (ustr ''references'') (maxMetric [Acme, Acorn]) Acorn 1 =
      chartItem (ustr ''references'') (maxMetric [Acme, Acorn]) ([Acme, Acorn] ! 1) 1 \<and>
      1 < length [Acme, Acorn]"
    by simp
  with s have b: "chartItem (ustr ''references'') (maxMetric [Acme, Acorn]) Acorn 1
       \<in> set (chartData (ustr ''references'') [Acme, Acorn])"
    by blast
  from t [where p = Acme and i = 0 and v = 12] r'
  have e: "item_size (chartItem (ustr ''references'') (maxMetric [Acme, Acorn]) Acme 0) = Num 12"
    by auto
  from chart_sizes [where metric = "ustr ''district''" and ps = "[Acme, Acorn]"
      and mm = "maxMetric [Acme, Acorn]" and p = Acme and i = 0 and v = 85] d
  have f: "item_size (chartItem (ustr ''district'') (maxMetric [Acme, Acorn]) Acme 0) = Num 85"
    by auto
  from a b c e f show ?thesis by simp
qed

text \<open>
  The claim without the amendment fails for a partner with no references: \<open>Acorn\<close> has
  0 references and a \<open>districtValue\<close> of 0 and gets the size 1 under either metric, next
  to \<open>Acme\<close> with the sizes 12 and 85.
\<close>

theorem chart_sizes_as_claimed_counterexample:
  "map item_size (chartData (ustr ''references'') [Acme, Acorn]) = [Num 12, Num 1] \<and>
   map references [Acme, Acorn] = [Num 12, Num 0] \<and>
   map item_size (chartData (ustr ''district'') [Acorn, Acme]) = [Num 85, Num 1] \<and>
   map districtValue [Acme, Acorn] = [Num 85, Num 0]"
  unfolding chartData_references_example chartData_district_example
  by (simp add: chartItem_def sizeValue_def example_numbers ustr_def)

subsection \<open>The fill of a box\<close>















end
